theory Spec2Isabelle
  imports Complex_Main "HOL-Library.Sublist"
begin

section \<open>Constants of the web application (lib/consts.ts)\<close>

text \<open>
  \<^verbatim>\<open>MODELS\<close> and \<^verbatim>\<open>METRICS\<close> are the option tables of the web application
  (the later of the two revisions of lib/consts.ts, with eight models). The TypeScript
  types \<^verbatim>\<open>Model\<close> and \<^verbatim>\<open>Metric\<close> are the unions of the \<^verbatim>\<open>value\<close> literals of
  the tables: here a datatype with one constructor per literal, and the literal itself
  given by \<open>model_value\<close> and \<open>metric_value\<close>.
\<close>

record Option =
  "value" :: string
  label :: string

definition MODELS :: "Option list" where
  "MODELS =
    [\<lparr>value = ''gemini-2.5-pro-latest'', label = ''Gemini 2.5 Pro Latest''\<rparr>,
     \<lparr>value = ''gemini-2.5-pro'', label = ''Gemini 2.5 Pro''\<rparr>,
     \<lparr>value = ''gemini-2.5-flash'', label = ''Gemini 2.5 Flash''\<rparr>,
     \<lparr>value = ''gemini-2.5-flash-lite'', label = ''Gemini 2.5 Flash Lite''\<rparr>,
     \<lparr>value = ''gemma-3-1b-it'', label = ''Gemma 3 1B''\<rparr>,
     \<lparr>value = ''gemini-2.0-flash-lite'', label = ''Gemini 2.0 Flash Lite''\<rparr>,
     \<lparr>value = ''gemini-2.0-flash-thinking-exp'', label = ''Gemini 2.0 Flash Thinking Exp''\<rparr>,
     \<lparr>value = ''learnlm-2.0-flash-experimental'', label = ''LearnLM 2.0 Flash Exp''\<rparr>]"

definition METRICS :: "Option list" where
  "METRICS =
    [\<lparr>value = ''time_complexity'', label = ''Time Complexity''\<rparr>,
     \<lparr>value = ''readability'', label = ''Readability''\<rparr>,
     \<lparr>value = ''consistency'', label = ''Consistency''\<rparr>,
     \<lparr>value = ''code_documentation'', label = ''Code Documentation''\<rparr>,
     \<lparr>value = ''external_dependencies'', label = ''External Dependencies''\<rparr>]"

datatype Model =
    Gemini_2_5_pro_latest
  | Gemini_2_5_pro
  | Gemini_2_5_flash
  | Gemini_2_5_flash_lite
  | Gemma_3_1b_it
  | Gemini_2_0_flash_lite
  | Gemini_2_0_flash_thinking_exp
  | Learnlm_2_0_flash_experimental

fun model_value :: "Model \<Rightarrow> string" where
  "model_value Gemini_2_5_pro_latest = ''gemini-2.5-pro-latest''"
| "model_value Gemini_2_5_pro = ''gemini-2.5-pro''"
| "model_value Gemini_2_5_flash = ''gemini-2.5-flash''"
| "model_value Gemini_2_5_flash_lite = ''gemini-2.5-flash-lite''"
| "model_value Gemma_3_1b_it = ''gemma-3-1b-it''"
| "model_value Gemini_2_0_flash_lite = ''gemini-2.0-flash-lite''"
| "model_value Gemini_2_0_flash_thinking_exp = ''gemini-2.0-flash-thinking-exp''"
| "model_value Learnlm_2_0_flash_experimental = ''learnlm-2.0-flash-experimental''"

datatype Metric =
    Time_complexity
  | Readability
  | Consistency
  | Code_documentation
  | External_dependencies

fun metric_value :: "Metric \<Rightarrow> string" where
  "metric_value Time_complexity = ''time_complexity''"
| "metric_value Readability = ''readability''"
| "metric_value Consistency = ''consistency''"
| "metric_value Code_documentation = ''code_documentation''"
| "metric_value External_dependencies = ''external_dependencies''"

section \<open>Boundary validation of a request (lib/api.ts)\<close>

text \<open>
  \<^verbatim>\<open>evaluateRequest.safeParse\<close> receives any JavaScript value. The values that matter
  to the schema are modelled by \<open>jsval\<close>; an object is the list of its own properties,
  and reading a property that is absent gives \<^verbatim>\<open>undefined\<close>. A string is the list of
  its code units, so that \<open>length\<close> is the \<^verbatim>\<open>.length\<close> the schema compares with 5.
\<close>

datatype jsval =
    JUndefined
  | JNull
  | JBool bool
  | JNum real
  | JStr string
  | JArr "jsval list"
  | JObj "(string \<times> jsval) list"

definition get_prop :: "(string \<times> jsval) list \<Rightarrow> string \<Rightarrow> jsval" where
  "get_prop props k = (case map_of props k of None \<Rightarrow> JUndefined | Some v \<Rightarrow> v)"

text \<open>
  An issue of the validation library: where it is (the path of keys and indices), what
  kind it is, and its message. Only the prompt's length check carries a message written
  in the schema; every other message is the library's default.
\<close>

datatype path_segment = Key string | Index nat

datatype issue_code = Invalid_type | Too_small | Invalid_enum_value

datatype issue_message = Message string | Default_message

record issue =
  path :: "path_segment list"
  issue_code :: issue_code
  message :: issue_message

type_synonym 'a parse_result = "issue list + 'a"

definition success :: "'a parse_result \<Rightarrow> bool" where
  "success r = (case r of Inr _ \<Rightarrow> True | Inl _ \<Rightarrow> False)"

definition issues :: "'a parse_result \<Rightarrow> issue list" where
  "issues r = (case r of Inl es \<Rightarrow> es | Inr _ \<Rightarrow> [])"

definition at_path :: "path_segment \<Rightarrow> 'a parse_result \<Rightarrow> 'a parse_result" where
  "at_path seg r =
    (case r of
       Inl es \<Rightarrow> Inl (map (\<lambda>e. e\<lparr>path := seg # path e\<rparr>) es)
     | Inr v \<Rightarrow> Inr v)"

text \<open>\<^verbatim>\<open>z.string().min(n, msg)\<close>: a non-string is a type issue and the length is not looked at.\<close>

definition z_string_min :: "nat \<Rightarrow> string \<Rightarrow> jsval \<Rightarrow> string parse_result" where
  "z_string_min n msg v =
    (case v of
       JStr s \<Rightarrow>
         if length s < n
         then Inl [\<lparr>path = [], issue_code = Too_small, message = Message msg\<rparr>]
         else Inr s
     | _ \<Rightarrow> Inl [\<lparr>path = [], issue_code = Invalid_type, message = Default_message\<rparr>])"

text \<open>
  \<^verbatim>\<open>z.enum(values)\<close>: a string that is one of the values. The kinds of issue are named
  as version 3 of the library names them; version 4 reports an element that is not a
  string as an invalid value, like a string that is not one of the values.
\<close>

definition z_enum :: "string list \<Rightarrow> jsval \<Rightarrow> string parse_result" where
  "z_enum values v =
    (case v of
       JStr s \<Rightarrow>
         if s \<in> set values then Inr s
         else Inl [\<lparr>path = [], issue_code = Invalid_enum_value, message = Default_message\<rparr>]
     | _ \<Rightarrow> Inl [\<lparr>path = [], issue_code = Invalid_type, message = Default_message\<rparr>])"

text \<open>
  The results of the elements of an array, or of the fields of an object, are gathered:
  the value is valid when every part is, and otherwise all the issues are reported.
\<close>

fun gather :: "'a parse_result list \<Rightarrow> 'a list parse_result" where
  "gather [] = Inr []"
| "gather (r # rs) =
    (case (r, gather rs) of
       (Inr v, Inr vs) \<Rightarrow> Inr (v # vs)
     | (Inr v, Inl es) \<Rightarrow> Inl es
     | (Inl e, rest) \<Rightarrow> Inl (e @ issues rest))"

text \<open>\<^verbatim>\<open>z.array(element)\<close>: no length bound and no check between elements.\<close>

definition z_array :: "(jsval \<Rightarrow> 'a parse_result) \<Rightarrow> jsval \<Rightarrow> 'a list parse_result" where
  "z_array element v =
    (case v of
       JArr xs \<Rightarrow> gather (map (\<lambda>(i, x). at_path (Index i) (element x)) (enumerate 0 xs))
     | _ \<Rightarrow> Inl [\<lparr>path = [], issue_code = Invalid_type, message = Default_message\<rparr>])"

definition modelValues :: "string list" where
  "modelValues = map value MODELS"

definition metricValues :: "string list" where
  "metricValues = map value METRICS"

record EvaluateRequest =
  prompt :: string
  models :: "string list"
  metrics :: "string list"

definition prompt_schema :: "jsval \<Rightarrow> string parse_result" where
  "prompt_schema = z_string_min 5 ''The prompt needs to be at least 5 characters long''"

definition models_schema :: "jsval \<Rightarrow> string list parse_result" where
  "models_schema = z_array (z_enum modelValues)"

definition metrics_schema :: "jsval \<Rightarrow> string list parse_result" where
  "metrics_schema = z_array (z_enum metricValues)"

text \<open>
  \<^verbatim>\<open>evaluateRequest = z.object({prompt, models, metrics})\<close>: the three fields are
  all required, each is parsed from the property of its name, and properties the schema
  does not know are dropped.
\<close>

definition evaluateRequest_safeParse :: "jsval \<Rightarrow> EvaluateRequest parse_result" where
  "evaluateRequest_safeParse input =
    (case input of
       JObj props \<Rightarrow>
         (let p = at_path (Key ''prompt'') (prompt_schema (get_prop props ''prompt''));
              ms = at_path (Key ''models'') (models_schema (get_prop props ''models''));
              mt = at_path (Key ''metrics'') (metrics_schema (get_prop props ''metrics''))
          in case (p, ms, mt) of
               (Inr pv, Inr msv, Inr mtv) \<Rightarrow> Inr \<lparr>prompt = pv, models = msv, metrics = mtv\<rparr>
             | _ \<Rightarrow> Inl (issues p @ issues ms @ issues mt))
     | _ \<Rightarrow> Inl [\<lparr>path = [], issue_code = Invalid_type, message = Default_message\<rparr>])"

section \<open>Stream events and model results (lib/types.ts)\<close>

text \<open>
  A JavaScript number is modelled by a real: the events are read with \<^verbatim>\<open>JSON.parse\<close>,
  which yields no NaN, and the code only compares numbers with constants and prints them.
  Printing a number inside a template string is the runtime's \<^verbatim>\<open>Number\<close> to
  \<^verbatim>\<open>String\<close> conversion: the functions below take it as the parameter
  \<open>numberToString\<close>.
\<close>

record MetricScore =
  score :: real
  "notes" :: string

text \<open>
  \<^verbatim>\<open>EvaluationMetrics = Record<Metric, {score, notes}>\<close>, as the list of entries
  that \<^verbatim>\<open>Object.entries\<close> enumerates, in the order of the object's keys.
\<close>

type_synonym EvaluationMetrics = "(Metric \<times> MetricScore) list"

record SummaryData =
  total_models_tested :: real
  successful_evaluations :: real
  failed_evaluations :: real
  best_model :: Model
  best_score :: real
  best_generated_code :: string
  potential_issues :: string

text \<open>
  The seven kinds of \<^verbatim>\<open>StreamEvent\<close>, in the order of the type's fields:
  \<^verbatim>\<open>generation_start{model}\<close>, \<^verbatim>\<open>code_chunk{model, chunk}\<close>,
  \<^verbatim>\<open>generation_complete{model, success, execution_time_ms}\<close>,
  \<^verbatim>\<open>evaluation_result{model, overall_score, metrics, notes.pros, notes.cons}\<close>,
  \<^verbatim>\<open>summary{data, ranking}\<close> (a ranking entry is rank, model, score),
  \<^verbatim>\<open>complete\<close> and \<^verbatim>\<open>error{message, model?}\<close>.
\<close>

datatype StreamEvent =
    Generation_start Model
  | Code_chunk Model string
  | Generation_complete Model bool real
  | Evaluation_result Model real EvaluationMetrics "string list" "string list"
  | Summary SummaryData "(real \<times> Model \<times> real) list"
  | Complete
  | Error string "Model option"

datatype ModelStatus = Status_pending | Status_processing | Status_complete | Status_error

record Recommendation =
  bestModel :: Model
  bestScore :: real
  code :: string
  potentialIssues :: string

datatype WarningType = Warning_model | Warning_code_quality

text \<open>The fields \<^verbatim>\<open>id\<close>, \<^verbatim>\<open>type\<close>, \<^verbatim>\<open>message\<close> and \<^verbatim>\<open>model\<close> of a \<^verbatim>\<open>Warning\<close>.\<close>

record Warning =
  warning_id :: string
  warning_type :: WarningType
  warning_message :: string
  warning_model :: "Model option"

text \<open>A field that is optional in \<^verbatim>\<open>ModelResult\<close> is \<open>None\<close> when absent or undefined.\<close>

record ModelResult =
  model :: Model
  status :: ModelStatus
  code :: string
  executionTime :: "real option"
  overallScore :: "real option"
  metrics :: "EvaluationMetrics option"
  pros :: "string list option"
  cons :: "string list option"
  error :: "string option"

section \<open>The results page (app/results/page.tsx)\<close>

definition replace_underscores :: "string \<Rightarrow> string" where
  \<comment> \<open>\<^verbatim>\<open>key.replace(/_/g, " ")\<close>\<close>
  "replace_underscores key = map (\<lambda>c. if c = CHR ''_'' then CHR '' '' else c) key"

definition pros_cons_line :: "(real \<Rightarrow> string) \<Rightarrow> string \<Rightarrow> string \<Rightarrow> real \<Rightarrow> string \<Rightarrow> string" where
  \<comment> \<open>the template \<^verbatim>\<open>`${framing} ${metricName} (${score}/10): ${notes}`\<close>\<close>
  "pros_cons_line numberToString framing metricName sc nt =
     framing @ '' '' @ metricName @ '' ('' @ numberToString sc @ ''/10): '' @ nt"

text \<open>
  One round of the \<^verbatim>\<open>forEach\<close> of \<^verbatim>\<open>generateProsAndCons\<close>: the entry's line is
  pushed to the end of \<^verbatim>\<open>pros\<close> or of \<^verbatim>\<open>cons\<close>, by the first threshold its score reaches.
\<close>

definition pros_cons_step ::
  "(real \<Rightarrow> string) \<Rightarrow> Metric \<times> MetricScore \<Rightarrow> string list \<times> string list \<Rightarrow> string list \<times> string list" where
  "pros_cons_step numberToString entry acc =
    (let metricName = replace_underscores (metric_value (fst entry));
         sc = score (snd entry);
         nt = notes (snd entry)
     in if sc \<ge> 8 then
          (fst acc @ [pros_cons_line numberToString ''Excellent'' metricName sc nt], snd acc)
        else if sc \<ge> 6.5 then
          (fst acc @ [pros_cons_line numberToString ''Good'' metricName sc nt], snd acc)
        else if sc \<ge> 5 then
          (fst acc, snd acc @ [pros_cons_line numberToString ''Moderate'' metricName sc nt])
        else
          (fst acc, snd acc @ [pros_cons_line numberToString ''Poor'' metricName sc nt]))"

definition generateProsAndCons ::
  "(real \<Rightarrow> string) \<Rightarrow> EvaluationMetrics \<Rightarrow> string list \<times> string list" where
  \<comment> \<open>the pair is \<^verbatim>\<open>{pros, cons}\<close>\<close>
  "generateProsAndCons numberToString ms = fold (pros_cons_step numberToString) ms ([], [])"

text \<open>
  The state of \<^verbatim>\<open>ResultsPage\<close>: one field for each \<^verbatim>\<open>useState\<close>. The results are
  a \<^verbatim>\<open>Partial<Record<Model, ModelResult>>\<close>: a model has an entry or has none.
\<close>

record PageState =
  results :: "Model \<rightharpoonup> ModelResult"
  recommendation :: "Recommendation option"
  warnings :: "Warning list"
  isComplete :: bool
  error :: "string option"

text \<open>
  The effect of mounting the page: every requested model gets a pending entry with no code.
\<close>

definition initialResults :: "Model list \<Rightarrow> (Model \<rightharpoonup> ModelResult)" where
  "initialResults ms =
     fold (\<lambda>m acc. acc(m \<mapsto>
        \<lparr>model = m, status = Status_pending, code = [], executionTime = None,
         overallScore = None, metrics = None, pros = None, cons = None,
         ModelResult.error = None\<rparr>)) ms Map.empty"

definition initialState :: "Model list \<Rightarrow> PageState" where
  \<comment> \<open>the initial values of the \<^verbatim>\<open>useState\<close> calls, with the results set on mounting\<close>
  "initialState ms =
     \<lparr>results = initialResults ms, recommendation = None, warnings = [],
      isComplete = False, error = None\<rparr>"

text \<open>
  \<^verbatim>\<open>setResults((prev) => ...)\<close> of the per-model cases: with no entry for the model the
  updater returns \<^verbatim>\<open>prev\<close>, and otherwise a copy of \<^verbatim>\<open>prev\<close> whose entry for the model
  is the changed copy of the current one.
\<close>

definition updateResult ::
  "Model \<Rightarrow> (ModelResult \<Rightarrow> ModelResult) \<Rightarrow> (Model \<rightharpoonup> ModelResult) \<Rightarrow> (Model \<rightharpoonup> ModelResult)" where
  "updateResult m change prev =
    (case prev m of
       None \<Rightarrow> prev
     | Some currentResult \<Rightarrow> prev(m \<mapsto> change currentResult))"

text \<open>
  \<^verbatim>\<open>handleStreamEvent\<close>, with the clock read by \<^verbatim>\<open>Date.now()\<close> as the parameter
  \<open>now\<close>. The test \<^verbatim>\<open>if (event.model)\<close> of the error case holds when the model is
  present and its identifier is not the empty string.
\<close>

fun handleStreamEvent :: "(real \<Rightarrow> string) \<Rightarrow> real \<Rightarrow> StreamEvent \<Rightarrow> PageState \<Rightarrow> PageState" where
  "handleStreamEvent numberToString now (Generation_start m) st =
     st\<lparr>results := updateResult m (\<lambda>cur. cur\<lparr>status := Status_processing\<rparr>) (results st)\<rparr>"
| "handleStreamEvent numberToString now (Code_chunk m chunk) st =
     st\<lparr>results := updateResult m (\<lambda>cur. cur\<lparr>code := code cur @ chunk\<rparr>) (results st)\<rparr>"
| "handleStreamEvent numberToString now (Generation_complete m ok execution_time_ms) st =
     st\<lparr>results := updateResult m
        (\<lambda>cur. cur\<lparr>status := (if ok then Status_complete else Status_error),
                   executionTime := Some execution_time_ms,
                   ModelResult.error := (if ok then None else Some ''Generation failed'')\<rparr>)
        (results st)\<rparr>"
| "handleStreamEvent numberToString now (Evaluation_result m overall_score ms ps cs) st =
     st\<lparr>results := updateResult m
        (\<lambda>cur. cur\<lparr>overallScore := Some overall_score,
                   metrics := Some ms,
                   pros := Some (fst (generateProsAndCons numberToString ms)),
                   cons := Some (snd (generateProsAndCons numberToString ms))\<rparr>)
        (results st)\<rparr>"
| "handleStreamEvent numberToString now (Summary d ranking) st =
     st\<lparr>recommendation := Some
        \<lparr>bestModel = best_model d, bestScore = best_score d,
         Recommendation.code = best_generated_code d, potentialIssues = potential_issues d\<rparr>\<rparr>"
| "handleStreamEvent numberToString now (Error msg mo) st =
    (case mo of
       Some errorModel \<Rightarrow>
         if model_value errorModel \<noteq> [] then
           st\<lparr>results := updateResult errorModel
                  (\<lambda>cur. cur\<lparr>status := Status_error, ModelResult.error := Some msg\<rparr>) (results st),
              warnings := warnings st @
                  [\<lparr>warning_id = ''error-'' @ model_value errorModel @ ''-'' @ numberToString now,
                    warning_type = Warning_model, warning_message = msg,
                    warning_model = Some errorModel\<rparr>]\<rparr>
         else st\<lparr>error := Some msg\<rparr>
     | None \<Rightarrow> st\<lparr>error := Some msg\<rparr>)"
| "handleStreamEvent numberToString now Complete st = st\<lparr>isComplete := True\<rparr>"

section \<open>The results page on unvalidated events (app/results/page.tsx)\<close>

text \<open>
  An event reaches \<^verbatim>\<open>handleStreamEvent\<close> through \<^verbatim>\<open>JSON.parse(data) as StreamEvent\<close>,
  a cast that checks nothing: at run time the model of an event is any string. The
  results are a plain object, so \<^verbatim>\<open>prev[event.model]\<close> finds an own entry and, with
  none, a property that every object inherits from \<^verbatim>\<open>Object.prototype\<close>. This section
  is the handler with the model of an event as a string; the other fields of an event are
  as their types say. \<open>handleStreamEvent\<close> above is this handler on the events whose model
  is of the type \<^verbatim>\<open>Model\<close> (lemma \<open>handleStreamEvent_raw_typed\<close>).
\<close>

definition objectPrototypeKeys :: "string list" where
  \<comment> \<open>the names of the properties of \<^verbatim>\<open>Object.prototype\<close>\<close>
  "objectPrototypeKeys =
    [''constructor'', ''__defineGetter__'', ''__defineSetter__'', ''hasOwnProperty'',
     ''__lookupGetter__'', ''__lookupSetter__'', ''isPrototypeOf'', ''propertyIsEnumerable'',
     ''toString'', ''valueOf'', ''__proto__'', ''toLocaleString'']"

text \<open>
  An entry of the results at run time is an object that has each field of a
  \<^verbatim>\<open>ModelResult\<close> or lacks it (\<open>None\<close>: absent or undefined).
\<close>

record RawResult =
  raw_model :: "string option"
  raw_status :: "ModelStatus option"
  raw_code :: "string option"
  raw_executionTime :: "real option"
  raw_overallScore :: "real option"
  raw_metrics :: "EvaluationMetrics option"
  raw_pros :: "string list option"
  raw_cons :: "string list option"
  raw_error :: "string option"

definition inheritedValue :: RawResult where
  \<comment> \<open>An inherited property is a function, or for \<^verbatim>\<open>__proto__\<close> the prototype itself:
      a truthy value that has none of the fields and that a spread copies nothing from.\<close>
  "inheritedValue =
     \<lparr>raw_model = None, raw_status = None, raw_code = None, raw_executionTime = None,
      raw_overallScore = None, raw_metrics = None, raw_pros = None, raw_cons = None,
      raw_error = None\<rparr>"

definition lookupResult :: "(string \<rightharpoonup> RawResult) \<Rightarrow> string \<Rightarrow> RawResult option" where
  \<comment> \<open>\<^verbatim>\<open>prev[event.model]\<close>: \<open>None\<close> is \<^verbatim>\<open>undefined\<close>\<close>
  "lookupResult prev k =
    (case prev k of
       Some r \<Rightarrow> Some r
     | None \<Rightarrow> if k \<in> set objectPrototypeKeys then Some inheritedValue else None)"

definition updateResult_raw ::
  "string \<Rightarrow> (RawResult \<Rightarrow> RawResult) \<Rightarrow> (string \<rightharpoonup> RawResult) \<Rightarrow> (string \<rightharpoonup> RawResult)" where
  \<comment> \<open>\<^verbatim>\<open>if (!currentResult) return prev; return {...prev, [event.model]: {...}}\<close>:
      the computed key makes an own entry, also for the name \<^verbatim>\<open>__proto__\<close>\<close>
  "updateResult_raw k change prev =
    (case lookupResult prev k of
       None \<Rightarrow> prev
     | Some currentResult \<Rightarrow> prev(k \<mapsto> change currentResult))"

definition codeOf :: "RawResult \<Rightarrow> string" where
  \<comment> \<open>\<^verbatim>\<open>currentResult.code\<close> as the left operand of \<^verbatim>\<open>+\<close> with a string\<close>
  "codeOf r = (case raw_code r of Some c \<Rightarrow> c | None \<Rightarrow> ''undefined'')"

datatype RawEvent =
    Raw_generation_start string
  | Raw_code_chunk string string
  | Raw_generation_complete string bool real
  | Raw_evaluation_result string real EvaluationMetrics "string list" "string list"
  | Raw_summary SummaryData "(real \<times> Model \<times> real) list"
  | Raw_complete
  | Raw_error string "string option"

record RawWarning =
  raw_warning_id :: string
  raw_warning_type :: WarningType
  raw_warning_message :: string
  raw_warning_model :: "string option"

record RawPageState =
  raw_results :: "string \<rightharpoonup> RawResult"
  raw_recommendation :: "Recommendation option"
  raw_warnings :: "RawWarning list"
  raw_isComplete :: bool
  raw_page_error :: "string option"

fun handleStreamEvent_raw :: "(real \<Rightarrow> string) \<Rightarrow> real \<Rightarrow> RawEvent \<Rightarrow> RawPageState \<Rightarrow> RawPageState" where
  "handleStreamEvent_raw numberToString now (Raw_generation_start k) st =
     st\<lparr>raw_results := updateResult_raw k
        (\<lambda>cur. cur\<lparr>raw_status := Some Status_processing\<rparr>) (raw_results st)\<rparr>"
| "handleStreamEvent_raw numberToString now (Raw_code_chunk k chunk) st =
     st\<lparr>raw_results := updateResult_raw k
        (\<lambda>cur. cur\<lparr>raw_code := Some (codeOf cur @ chunk)\<rparr>) (raw_results st)\<rparr>"
| "handleStreamEvent_raw numberToString now (Raw_generation_complete k ok execution_time_ms) st =
     st\<lparr>raw_results := updateResult_raw k
        (\<lambda>cur. cur\<lparr>raw_status := Some (if ok then Status_complete else Status_error),
                   raw_executionTime := Some execution_time_ms,
                   raw_error := (if ok then None else Some ''Generation failed'')\<rparr>)
        (raw_results st)\<rparr>"
| "handleStreamEvent_raw numberToString now (Raw_evaluation_result k overall_score ms ps cs) st =
     st\<lparr>raw_results := updateResult_raw k
        (\<lambda>cur. cur\<lparr>raw_overallScore := Some overall_score,
                   raw_metrics := Some ms,
                   raw_pros := Some (fst (generateProsAndCons numberToString ms)),
                   raw_cons := Some (snd (generateProsAndCons numberToString ms))\<rparr>)
        (raw_results st)\<rparr>"
| "handleStreamEvent_raw numberToString now (Raw_summary d ranking) st =
     st\<lparr>raw_recommendation := Some
        \<lparr>bestModel = best_model d, bestScore = best_score d,
         Recommendation.code = best_generated_code d, potentialIssues = potential_issues d\<rparr>\<rparr>"
| "handleStreamEvent_raw numberToString now (Raw_error msg mo) st =
    (case mo of
       Some errorModel \<Rightarrow>
         if errorModel \<noteq> [] then
           st\<lparr>raw_results := updateResult_raw errorModel
                  (\<lambda>cur. cur\<lparr>raw_status := Some Status_error, raw_error := Some msg\<rparr>)
                  (raw_results st),
              raw_warnings := raw_warnings st @
                  [\<lparr>raw_warning_id = ''error-'' @ errorModel @ ''-'' @ numberToString now,
                    raw_warning_type = Warning_model, raw_warning_message = msg,
                    raw_warning_model = Some errorModel\<rparr>]\<rparr>
         else st\<lparr>raw_page_error := Some msg\<rparr>
     | None \<Rightarrow> st\<lparr>raw_page_error := Some msg\<rparr>)"
| "handleStreamEvent_raw numberToString now Raw_complete st = st\<lparr>raw_isComplete := True\<rparr>"

text \<open>
  A typed event, entry, warning and page state as the run-time values they are: an
  identifier of the type \<^verbatim>\<open>Model\<close> is its string, and a \<^verbatim>\<open>ModelResult\<close> has its three
  required fields.
\<close>

definition allModels :: "Model list" where
  "allModels =
    [Gemini_2_5_pro_latest, Gemini_2_5_pro, Gemini_2_5_flash, Gemini_2_5_flash_lite,
     Gemma_3_1b_it, Gemini_2_0_flash_lite, Gemini_2_0_flash_thinking_exp,
     Learnlm_2_0_flash_experimental]"

definition modelOf :: "string \<Rightarrow> Model option" where
  "modelOf k = find (\<lambda>m. model_value m = k) allModels"

fun rawEvent :: "StreamEvent \<Rightarrow> RawEvent" where
  "rawEvent (Generation_start m) = Raw_generation_start (model_value m)"
| "rawEvent (Code_chunk m chunk) = Raw_code_chunk (model_value m) chunk"
| "rawEvent (Generation_complete m ok t) = Raw_generation_complete (model_value m) ok t"
| "rawEvent (Evaluation_result m overall_score ms ps cs) =
     Raw_evaluation_result (model_value m) overall_score ms ps cs"
| "rawEvent (Summary d ranking) = Raw_summary d ranking"
| "rawEvent Complete = Raw_complete"
| "rawEvent (Error msg mo) = Raw_error msg (map_option model_value mo)"

definition rawResult :: "ModelResult \<Rightarrow> RawResult" where
  "rawResult r =
     \<lparr>raw_model = Some (model_value (model r)), raw_status = Some (status r),
      raw_code = Some (code r), raw_executionTime = executionTime r,
      raw_overallScore = overallScore r, raw_metrics = ModelResult.metrics r,
      raw_pros = pros r, raw_cons = cons r, raw_error = ModelResult.error r\<rparr>"

definition rawResults :: "(Model \<rightharpoonup> ModelResult) \<Rightarrow> (string \<rightharpoonup> RawResult)" where
  "rawResults rs k =
    (case modelOf k of
       None \<Rightarrow> None
     | Some m \<Rightarrow> map_option rawResult (rs m))"

definition rawWarning :: "Warning \<Rightarrow> RawWarning" where
  "rawWarning w =
     \<lparr>raw_warning_id = warning_id w, raw_warning_type = warning_type w,
      raw_warning_message = warning_message w,
      raw_warning_model = map_option model_value (warning_model w)\<rparr>"

definition rawState :: "PageState \<Rightarrow> RawPageState" where
  "rawState st =
     \<lparr>raw_results = rawResults (results st), raw_recommendation = recommendation st,
      raw_warnings = map rawWarning (warnings st), raw_isComplete = isComplete st,
      raw_page_error = PageState.error st\<rparr>"

section \<open>The priority picker (components/ordered-checkbox-group.tsx)\<close>

text \<open>
  The component is controlled when the property \<^verbatim>\<open>selectedValues\<close> is given, and
  otherwise keeps the list in its own state \<^verbatim>\<open>internalValues\<close>.
\<close>

definition selectedValues :: "'v list option \<Rightarrow> 'v list \<Rightarrow> 'v list" where
  "selectedValues controlledValues internalValues =
    (case controlledValues of Some vs \<Rightarrow> vs | None \<Rightarrow> internalValues)"

text \<open>
  \<^verbatim>\<open>handleToggle\<close> returns the component's \<^verbatim>\<open>internalValues\<close> after the call and
  \<^verbatim>\<open>newValues\<close>, the list it hands to \<^verbatim>\<open>onChange\<close>.
\<close>

definition handleToggle :: "'v list option \<Rightarrow> 'v list \<Rightarrow> 'v \<Rightarrow> 'v list \<times> 'v list" where
  "handleToggle controlledValues internalValues v =
    (let sel = selectedValues controlledValues internalValues;
         newValues = (if v \<in> set sel then filter (\<lambda>x. x \<noteq> v) sel else sel @ [v])
     in (if controlledValues = None then newValues else internalValues, newValues))"

section \<open>The Weight Calculator\<close>

text \<open>
  Modelled from the spec: the backend's weight calculation (the Python module
  code_evaluator.py) is not among the sources; the documents of the backend only state
  the decay rate 0.7, the normalisation and the default weights. The definitions follow
  the contract \<^verbatim>\<open>computeWeights(priority, decayRate, defaultWeights)\<close>: the metric
  at 0-based position \<open>i\<close> of a non-empty priority gets \<open>decayRate ^ i\<close> divided by
  the sum of these weights; an empty priority returns the default weights, which must sum
  to 1; a priority that repeats an identifier, names one the defaults do not have, or
  misses one of theirs is refused, naming the identifier. Weights are real numbers, so
  the arithmetic is exact.
\<close>

datatype weight_error = ValidationError string | ConfigError

definition rawWeights :: "real \<Rightarrow> nat \<Rightarrow> real list" where
  \<comment> \<open>Modelled from the spec: the unnormalised weights of \<open>n\<close> positions.\<close>
  "rawWeights decayRate n = map (\<lambda>i. decayRate ^ i) [0..<n]"

fun offending :: "string list \<Rightarrow> string list \<Rightarrow> string list \<Rightarrow> string option" where
  \<comment> \<open>Modelled from the spec: the first identifier of the priority that is unknown or
      repeated, and with none of these the first known identifier the priority misses.\<close>
  "offending universe seen [] = find (\<lambda>k. k \<notin> set seen) universe"
| "offending universe seen (k # ks) =
    (if k \<notin> set universe \<or> k \<in> set seen then Some k else offending universe (seen @ [k]) ks)"

definition priorityWeights :: "string list \<Rightarrow> real \<Rightarrow> (string \<times> real) list" where
  \<comment> \<open>Modelled from the spec: position \<open>i\<close> weighs \<open>decayRate ^ i\<close>, and every
      weight is divided by the sum of all of them.\<close>
  "priorityWeights priority decayRate =
    (let raw = rawWeights decayRate (length priority);
         total = sum_list raw
     in zip priority (map (\<lambda>w. w / total) raw))"

definition computeWeights ::
  "string list \<Rightarrow> real \<Rightarrow> (string \<times> real) list \<Rightarrow> weight_error + (string \<times> real) list" where
  \<comment> \<open>Modelled from the spec: the Weight Calculator's contract.\<close>
  "computeWeights priority decayRate defaultWeights =
    (if priority = [] then
       (if sum_list (map snd defaultWeights) = 1 then Inr defaultWeights else Inl ConfigError)
     else
       (case offending (map fst defaultWeights) [] priority of
          Some k \<Rightarrow> Inl (ValidationError k)
        | None \<Rightarrow> Inr (priorityWeights priority decayRate)))"

section \<open>Properties of the boundary validation\<close>

lemma gather_Inr_iff: "gather rs = Inr vs \<longleftrightarrow> rs = map Inr vs"
proof (induction rs arbitrary: vs)
  case Nil
  show ?case by auto
next
  case (Cons r rs)
  show ?case
  proof (cases r)
    case (Inl e)
    then show ?thesis by (cases vs) auto
  next
    case (Inr v)
    show ?thesis
    proof (cases "gather rs")
      case (Inl es)
      with Inr Cons[of "tl vs"] show ?thesis by (cases vs) (auto simp: Cons)
    next
      case r2: (Inr ws)
      with Inr Cons show ?thesis by (cases vs) auto
    qed
  qed
qed

lemma at_path_Inr_iff: "at_path seg r = Inr v \<longleftrightarrow> r = Inr v"
  by (cases r) (simp_all add: at_path_def)

lemma z_enum_Inr_iff: "z_enum vals v = Inr s \<longleftrightarrow> v = JStr s \<and> s \<in> set vals"
  by (cases v) (auto simp: z_enum_def)

lemma map_enum_Inr_iff:
  "map (\<lambda>(i, x). at_path (Index i) (z_enum vals x)) (enumerate n xs) = map Inr ss
    \<longleftrightarrow> xs = map JStr ss \<and> set ss \<subseteq> set vals"
proof (induction xs arbitrary: n ss)
  case Nil
  show ?case by auto
next
  case (Cons x xs)
  show ?case
    by (cases ss) (auto simp: Cons at_path_Inr_iff z_enum_Inr_iff)
qed

text \<open>An array schema over an enumeration accepts exactly the arrays of known strings.\<close>

lemma z_array_enum_Inr_iff:
  "z_array (z_enum vals) v = Inr ss \<longleftrightarrow> v = JArr (map JStr ss) \<and> set ss \<subseteq> set vals"
  by (cases v) (auto simp: z_array_def gather_Inr_iff map_enum_Inr_iff)

lemma models_schema_Inr_iff:
  "models_schema v = Inr ss \<longleftrightarrow> v = JArr (map JStr ss) \<and> set ss \<subseteq> set modelValues"
  by (simp add: models_schema_def z_array_enum_Inr_iff)

lemma metrics_schema_Inr_iff:
  "metrics_schema v = Inr ss \<longleftrightarrow> v = JArr (map JStr ss) \<and> set ss \<subseteq> set metricValues"
  by (simp add: metrics_schema_def z_array_enum_Inr_iff)

lemma prompt_schema_JStr:
  "prompt_schema (JStr p) =
    (if length p < 5
     then Inl [\<lparr>path = [], issue_code = Too_small,
                message = Message ''The prompt needs to be at least 5 characters long''\<rparr>]
     else Inr p)"
  by (simp add: prompt_schema_def z_string_min_def)

lemma success_iff: "success r \<longleftrightarrow> (\<exists>v. r = Inr v)"
  by (cases r) (simp_all add: success_def)

text \<open>A request object is accepted exactly when each of its three fields is.\<close>

lemma safeParse_Inr_iff:
  "evaluateRequest_safeParse (JObj props) = Inr req \<longleftrightarrow>
     prompt_schema (get_prop props ''prompt'') = Inr (prompt req) \<and>
     models_schema (get_prop props ''models'') = Inr (models req) \<and>
     metrics_schema (get_prop props ''metrics'') = Inr (EvaluateRequest.metrics req)"
  by (cases req)
    (auto simp: evaluateRequest_safeParse_def Let_def at_path_Inr_iff at_path_def
          split: sum.splits)

lemma safeParse_fields:
  assumes "prompt_schema (get_prop props ''prompt'') = p"
    and "models_schema (get_prop props ''models'') = Inr ms"
    and "metrics_schema (get_prop props ''metrics'') = Inr mt"
  shows "evaluateRequest_safeParse (JObj props) =
    (case p of
       Inl es \<Rightarrow> Inl (map (\<lambda>e. e\<lparr>path := Key ''prompt'' # path e\<rparr>) es)
     | Inr pv \<Rightarrow> Inr \<lparr>prompt = pv, models = ms, metrics = mt\<rparr>)"
  using assms
  by (cases p) (simp_all add: evaluateRequest_safeParse_def Let_def at_path_def issues_def)

text \<open>
  Claim C3. For a request object whose \<^verbatim>\<open>models\<close> and \<^verbatim>\<open>metrics\<close> fields are valid
  (arrays of known identifiers) and whose prompt is a string, validation accepts the
  request if and only if the prompt has at least 5 characters. A shorter prompt gives
  exactly one issue, on the field \<^verbatim>\<open>prompt\<close>, with the schema's message; a prompt
  that is long enough gives the parsed request.
\<close>

theorem prompt_min_length:
  assumes "get_prop props ''prompt'' = JStr p"
    and "get_prop props ''models'' = JArr (map JStr ms)" and "set ms \<subseteq> set modelValues"
    and "get_prop props ''metrics'' = JArr (map JStr mt)" and "set mt \<subseteq> set metricValues"
  shows "(success (evaluateRequest_safeParse (JObj props)) \<longleftrightarrow> 5 \<le> length p) \<and>
         (length p < 5 \<longrightarrow>
            evaluateRequest_safeParse (JObj props) =
              Inl [\<lparr>path = [Key ''prompt''], issue_code = Too_small,
                     message = Message ''The prompt needs to be at least 5 characters long''\<rparr>]) \<and>
         (5 \<le> length p \<longrightarrow>
            evaluateRequest_safeParse (JObj props) = Inr \<lparr>prompt = p, models = ms, metrics = mt\<rparr>)"
proof -
  have m: "models_schema (get_prop props ''models'') = Inr ms"
    using assms(2,3) by (simp add: models_schema_Inr_iff)
  have t: "metrics_schema (get_prop props ''metrics'') = Inr mt"
    using assms(4,5) by (simp add: metrics_schema_Inr_iff)
  have "evaluateRequest_safeParse (JObj props) =
    (case prompt_schema (JStr p) of
       Inl es \<Rightarrow> Inl (map (\<lambda>e. e\<lparr>path := Key ''prompt'' # path e\<rparr>) es)
     | Inr pv \<Rightarrow> Inr \<lparr>prompt = pv, models = ms, metrics = mt\<rparr>)"
    using safeParse_fields[OF _ m t] assms(1) by simp
  then show ?thesis
    by (simp add: prompt_schema_JStr success_def)
qed

theorem prompt_min_length_witness:
  "\<not> success (evaluateRequest_safeParse
      (JObj [(''prompt'', JStr ''sort''), (''models'', JArr [JStr ''gemini-2.5-pro'']),
             (''metrics'', JArr [JStr ''readability''])])) \<and>
   success (evaluateRequest_safeParse
      (JObj [(''prompt'', JStr ''sort!''), (''models'', JArr [JStr ''gemini-2.5-pro'']),
             (''metrics'', JArr [JStr ''readability''])]))"
  using
    prompt_min_length[of "[(''prompt'', JStr ''sort''), (''models'', JArr [JStr ''gemini-2.5-pro'']),
             (''metrics'', JArr [JStr ''readability''])]" "''sort''" "[''gemini-2.5-pro'']"
             "[''readability'']"]
    prompt_min_length[of "[(''prompt'', JStr ''sort!''), (''models'', JArr [JStr ''gemini-2.5-pro'']),
             (''metrics'', JArr [JStr ''readability''])]" "''sort!''" "[''gemini-2.5-pro'']"
             "[''readability'']"]
  by (simp add: get_prop_def modelValues_def metricValues_def MODELS_def METRICS_def success_def)


text \<open>
  Claim C2, as stated, fails: the schema of \<^verbatim>\<open>models\<close> is \<^verbatim>\<open>z.array(z.enum(modelValues))\<close>,
  which compares no two elements. A request that names the same model twice is accepted.
\<close>

theorem duplicate_models_accepted:
  "evaluateRequest_safeParse
     (JObj [(''prompt'', JStr ''hello''),
            (''models'', JArr [JStr ''gemini-2.5-pro'', JStr ''gemini-2.5-pro'']),
            (''metrics'', JArr [])])
   = Inr \<lparr>prompt = ''hello'', models = [''gemini-2.5-pro'', ''gemini-2.5-pro''], metrics = []\<rparr>
   \<and> \<not> distinct [''gemini-2.5-pro'', ''gemini-2.5-pro'']"
  by (simp add: safeParse_Inr_iff prompt_schema_JStr models_schema_Inr_iff metrics_schema_Inr_iff
        get_prop_def modelValues_def MODELS_def)

text \<open>The array schema has no lower bound on the length either.\<close>

lemma empty_models_accepted:
  "evaluateRequest_safeParse
     (JObj [(''prompt'', JStr ''hello''), (''models'', JArr []), (''metrics'', JArr [])])
   = Inr \<lparr>prompt = ''hello'', models = [], metrics = []\<rparr>"
  by (simp add: safeParse_Inr_iff prompt_schema_JStr models_schema_Inr_iff metrics_schema_Inr_iff
        get_prop_def)

text \<open>
  Claim C2, amended. For a request object with a valid prompt and valid metrics whose
  \<^verbatim>\<open>models\<close> field is not the empty array, validation accepts the request if and only
  if that field is an array of known model identifiers; whether an identifier occurs
  twice plays no part.
\<close>

theorem models_known_identifiers:
  assumes "get_prop props ''prompt'' = JStr p" and "5 \<le> length p"
    and "get_prop props ''metrics'' = JArr (map JStr mt)" and "set mt \<subseteq> set metricValues"
    and "get_prop props ''models'' \<noteq> JArr []"
  shows "success (evaluateRequest_safeParse (JObj props)) \<longleftrightarrow>
         (\<exists>ms. get_prop props ''models'' = JArr (map JStr ms) \<and> set ms \<subseteq> set modelValues)"
proof -
  have t: "metrics_schema (get_prop props ''metrics'') = Inr mt"
    using assms(3,4) by (simp add: metrics_schema_Inr_iff)
  have p: "prompt_schema (get_prop props ''prompt'') = Inr p"
    using assms(1,2) by (simp add: prompt_schema_JStr)
  have "success (evaluateRequest_safeParse (JObj props)) \<longleftrightarrow>
        (\<exists>ms. models_schema (get_prop props ''models'') = Inr ms)"
  proof
    assume "success (evaluateRequest_safeParse (JObj props))"
    then obtain req where "evaluateRequest_safeParse (JObj props) = Inr req"
      by (auto simp: success_iff)
    then show "\<exists>ms. models_schema (get_prop props ''models'') = Inr ms"
      by (auto simp: safeParse_Inr_iff)
  next
    assume "\<exists>ms. models_schema (get_prop props ''models'') = Inr ms"
    then obtain ms where "models_schema (get_prop props ''models'') = Inr ms" ..
    with p t have "evaluateRequest_safeParse (JObj props) = Inr \<lparr>prompt = p, models = ms, metrics = mt\<rparr>"
      by (simp add: safeParse_Inr_iff)
    then show "success (evaluateRequest_safeParse (JObj props))"
      by (simp add: success_def)
  qed
  then show ?thesis by (simp add: models_schema_Inr_iff)
qed

theorem models_known_identifiers_witness:
  "success (evaluateRequest_safeParse
     (JObj [(''prompt'', JStr ''hello''),
            (''models'', JArr [JStr ''gemini-2.5-pro'', JStr ''gemini-2.5-pro'']),
            (''metrics'', JArr [])])) \<and>
   \<not> success (evaluateRequest_safeParse
     (JObj [(''prompt'', JStr ''hello''),
            (''models'', JArr [JStr ''gpt-4'']),
            (''metrics'', JArr [])]))"
proof -
  let ?a = "[(''prompt'', JStr ''hello''),
            (''models'', JArr [JStr ''gemini-2.5-pro'', JStr ''gemini-2.5-pro'']),
            (''metrics'', JArr [])]"
  let ?b = "[(''prompt'', JStr ''hello''),
            (''models'', JArr [JStr ''gpt-4'']),
            (''metrics'', JArr [])]"
  have ex: "\<exists>ms. get_prop ?a ''models'' = JArr (map JStr ms) \<and> set ms \<subseteq> set modelValues"
    by (rule exI[of _ "[''gemini-2.5-pro'', ''gemini-2.5-pro'']"])
       (simp add: get_prop_def modelValues_def MODELS_def)
  have nex: "\<not> (\<exists>ms. get_prop ?b ''models'' = JArr (map JStr ms) \<and> set ms \<subseteq> set modelValues)"
    by (auto simp add: get_prop_def modelValues_def MODELS_def Cons_eq_map_conv)
  have a: "success (evaluateRequest_safeParse (JObj ?a))"
    using models_known_identifiers[of ?a "''hello''" "[]"] ex
    by (simp add: get_prop_def)
  have b: "\<not> success (evaluateRequest_safeParse (JObj ?b))"
    using models_known_identifiers[of ?b "''hello''" "[]"] nex
    by (simp add: get_prop_def)
  from a b show ?thesis by simp
qed

text \<open>
  Claim C4, as stated, fails: the field \<^verbatim>\<open>metrics\<close> of the schema is not optional. A
  request with a valid prompt and valid models and no \<^verbatim>\<open>metrics\<close> field is rejected
  with a type issue on that field.
\<close>

theorem missing_metrics_rejected:
  "evaluateRequest_safeParse
     (JObj [(''prompt'', JStr ''hello''), (''models'', JArr [JStr ''gemini-2.5-pro''])])
   = Inl [\<lparr>path = [Key ''metrics''], issue_code = Invalid_type, message = Default_message\<rparr>]"
  by (simp add: evaluateRequest_safeParse_def Let_def get_prop_def prompt_schema_JStr
       models_schema_def metrics_schema_def z_array_def z_enum_def at_path_def issues_def
       modelValues_def MODELS_def)

text \<open>
  Claim C4, amended. The field \<^verbatim>\<open>metrics\<close> is required and may be empty: a request
  object with a valid prompt and a valid models array is accepted when its
  \<^verbatim>\<open>metrics\<close> field is the empty array, and is rejected with one issue on the field
  \<^verbatim>\<open>metrics\<close> when it has no such field.
\<close>

theorem metrics_required_may_be_empty:
  assumes "get_prop props ''prompt'' = JStr p" and "5 \<le> length p"
    and "get_prop props ''models'' = JArr (map JStr ms)" and "set ms \<subseteq> set modelValues"
  shows "(get_prop props ''metrics'' = JArr [] \<longrightarrow>
            evaluateRequest_safeParse (JObj props) = Inr \<lparr>prompt = p, models = ms, metrics = []\<rparr>) \<and>
         (map_of props ''metrics'' = None \<longrightarrow>
            evaluateRequest_safeParse (JObj props) =
              Inl [\<lparr>path = [Key ''metrics''], issue_code = Invalid_type, message = Default_message\<rparr>])"
proof -
  have m: "models_schema (get_prop props ''models'') = Inr ms"
    using assms(3,4) by (simp add: models_schema_Inr_iff)
  have p: "prompt_schema (get_prop props ''prompt'') = Inr p"
    using assms(1,2) by (simp add: prompt_schema_JStr)
  have 1: "evaluateRequest_safeParse (JObj props) = Inr \<lparr>prompt = p, models = ms, metrics = []\<rparr>"
    if "get_prop props ''metrics'' = JArr []"
    using that p m by (simp add: safeParse_Inr_iff metrics_schema_Inr_iff)
  have 2: "evaluateRequest_safeParse (JObj props) =
              Inl [\<lparr>path = [Key ''metrics''], issue_code = Invalid_type, message = Default_message\<rparr>]"
    if "map_of props ''metrics'' = None"
  proof -
    have "metrics_schema (get_prop props ''metrics'') =
       Inl [\<lparr>path = [], issue_code = Invalid_type, message = Default_message\<rparr>]"
      using that by (simp add: get_prop_def metrics_schema_def z_array_def)
    with p m show ?thesis
      by (simp add: evaluateRequest_safeParse_def Let_def at_path_def issues_def)
  qed
  from 1 2 show ?thesis by blast
qed

theorem metrics_required_may_be_empty_witness:
  "evaluateRequest_safeParse
     (JObj [(''prompt'', JStr ''hello''), (''models'', JArr [JStr ''gemini-2.5-pro'']),
            (''metrics'', JArr [])])
   = Inr \<lparr>prompt = ''hello'', models = [''gemini-2.5-pro''], metrics = []\<rparr> \<and>
   evaluateRequest_safeParse
     (JObj [(''prompt'', JStr ''hello''), (''models'', JArr [JStr ''gemini-2.5-pro''])])
   = Inl [\<lparr>path = [Key ''metrics''], issue_code = Invalid_type, message = Default_message\<rparr>]"
  using
    metrics_required_may_be_empty[of "[(''prompt'', JStr ''hello''), (''models'', JArr [JStr ''gemini-2.5-pro'']),
            (''metrics'', JArr [])]" "''hello''" "[''gemini-2.5-pro'']"]
    metrics_required_may_be_empty[of "[(''prompt'', JStr ''hello''), (''models'', JArr [JStr ''gemini-2.5-pro''])]"
       "''hello''" "[''gemini-2.5-pro'']"]
  by (simp add: get_prop_def modelValues_def MODELS_def)

section \<open>Properties of the results page\<close>

lemma pros_cons_fold:
  "fold (pros_cons_step nts) ms acc =
    (fst acc @
       map (\<lambda>e. pros_cons_line nts (if score (snd e) \<ge> 8 then ''Excellent'' else ''Good'')
                  (replace_underscores (metric_value (fst e))) (score (snd e)) (notes (snd e)))
           (filter (\<lambda>e. score (snd e) \<ge> 6.5) ms),
     snd acc @
       map (\<lambda>e. pros_cons_line nts (if score (snd e) \<ge> 5 then ''Moderate'' else ''Poor'')
                  (replace_underscores (metric_value (fst e))) (score (snd e)) (notes (snd e)))
           (filter (\<lambda>e. score (snd e) < 6.5) ms))"
proof (induction ms arbitrary: acc)
  case Nil
  show ?case by simp
next
  case (Cons e ms)
  show ?case
    by (simp add: Cons) (simp add: pros_cons_step_def Let_def)
qed

text \<open>
  Claim C5. \<^verbatim>\<open>generateProsAndCons\<close> puts every metric in exactly one of the two
  lists, by its score, with bands closed at their lower bound: the pros are the lines of
  the entries that score at least 6.5, in order, framed \<^verbatim>\<open>Excellent\<close> from 8 and
  \<^verbatim>\<open>Good\<close> below 8; the cons are the lines of the entries that score less than 6.5,
  in order, framed \<^verbatim>\<open>Moderate\<close> from 5 and \<^verbatim>\<open>Poor\<close> below 5.
\<close>

theorem generateProsAndCons_bands:
  "generateProsAndCons nts ms =
    (map (\<lambda>e. pros_cons_line nts (if score (snd e) \<ge> 8 then ''Excellent'' else ''Good'')
                  (replace_underscores (metric_value (fst e))) (score (snd e)) (notes (snd e)))
           (filter (\<lambda>e. score (snd e) \<ge> 6.5) ms),
     map (\<lambda>e. pros_cons_line nts (if score (snd e) \<ge> 5 then ''Moderate'' else ''Poor'')
                  (replace_underscores (metric_value (fst e))) (score (snd e)) (notes (snd e)))
           (filter (\<lambda>e. score (snd e) < 6.5) ms)) \<and>
   length (fst (generateProsAndCons nts ms)) + length (snd (generateProsAndCons nts ms)) = length ms"
proof -
  have eq: "generateProsAndCons nts ms =
    (map (\<lambda>e. pros_cons_line nts (if score (snd e) \<ge> 8 then ''Excellent'' else ''Good'')
                  (replace_underscores (metric_value (fst e))) (score (snd e)) (notes (snd e)))
           (filter (\<lambda>e. score (snd e) \<ge> 6.5) ms),
     map (\<lambda>e. pros_cons_line nts (if score (snd e) \<ge> 5 then ''Moderate'' else ''Poor'')
                  (replace_underscores (metric_value (fst e))) (score (snd e)) (notes (snd e)))
           (filter (\<lambda>e. score (snd e) < 6.5) ms))"
    by (simp add: generateProsAndCons_def pros_cons_fold)
  have "length (filter (\<lambda>e. score (snd e) \<ge> 6.5) ms) + length (filter (\<lambda>e. score (snd e) < 6.5) ms)
      = length ms"
    using sum_length_filter_compl[of "\<lambda>e. score (snd e) \<ge> 6.5" ms]
    by (simp add: not_le)
  with eq show ?thesis by simp
qed

theorem generateProsAndCons_bands_witness:
  "generateProsAndCons (\<lambda>x. ''n'')
     [(Time_complexity, \<lparr>score = 8, notes = ''a''\<rparr>),
      (Readability, \<lparr>score = 6.5, notes = ''b''\<rparr>),
      (Consistency, \<lparr>score = 5, notes = ''c''\<rparr>),
      (Code_documentation, \<lparr>score = 4.9, notes = ''d''\<rparr>),
      (External_dependencies, \<lparr>score = 7.9, notes = ''e''\<rparr>)]
   = ([''Excellent time complexity (n/10): a'', ''Good readability (n/10): b'',
       ''Good external dependencies (n/10): e''],
      [''Moderate consistency (n/10): c'', ''Poor code documentation (n/10): d''])"
  using generateProsAndCons_bands[of "\<lambda>x. ''n''"
     "[(Time_complexity, \<lparr>score = 8, notes = ''a''\<rparr>),
      (Readability, \<lparr>score = 6.5, notes = ''b''\<rparr>),
      (Consistency, \<lparr>score = 5, notes = ''c''\<rparr>),
      (Code_documentation, \<lparr>score = 4.9, notes = ''d''\<rparr>),
      (External_dependencies, \<lparr>score = 7.9, notes = ''e''\<rparr>)]"]
  by (simp add: pros_cons_line_def replace_underscores_def)

lemma updateResult_Some:
  "prev m = Some r \<Longrightarrow> updateResult m change prev = prev(m \<mapsto> change r)"
  by (simp add: updateResult_def)

lemma updateResult_None:
  "prev m = None \<Longrightarrow> updateResult m change prev = prev"
  by (simp add: updateResult_def)

lemma model_value_not_empty: "model_value m \<noteq> []"
  by (cases m) simp_all

lemma initialState_entry:
  "results (initialState [Gemini_2_5_pro, Gemini_2_5_flash]) Gemini_2_5_pro =
     Some \<lparr>model = Gemini_2_5_pro, status = Status_pending, code = [], executionTime = None,
           overallScore = None, metrics = None, pros = None, cons = None,
           ModelResult.error = None\<rparr>"
  by (simp add: initialState_def initialResults_def)

lemma code_chunks_fold:
  "results st m = Some r \<Longrightarrow>
   fold (\<lambda>c. handleStreamEvent nts now (Code_chunk m c)) chunks st =
     st\<lparr>results := (results st)(m \<mapsto> r\<lparr>code := code r @ concat chunks\<rparr>)\<rparr>"
proof (induction chunks arbitrary: st r)
  case Nil
  then have "(results st)(m \<mapsto> r) = results st" by (simp add: map_upd_triv)
  then show ?case by simp
next
  case (Cons c chunks)
  let ?F = "\<lambda>c. handleStreamEvent nts now (Code_chunk m c)"
  let ?st = "st\<lparr>results := (results st)(m \<mapsto> r\<lparr>code := code r @ c\<rparr>)\<rparr>"
  have st: "?F c st = ?st"
    using Cons.prems by (simp add: updateResult_Some)
  have r: "results ?st m = Some (r\<lparr>code := code r @ c\<rparr>)" by simp
  have "fold ?F (c # chunks) st = fold ?F chunks (?F c st)" by simp
  also have "\<dots> = fold ?F chunks ?st" by (simp only: st)
  also have "\<dots> = ?st\<lparr>results := (results ?st)(m \<mapsto>
      (r\<lparr>code := code r @ c\<rparr>)\<lparr>code := code (r\<lparr>code := code r @ c\<rparr>) @ concat chunks\<rparr>)\<rparr>"
    by (rule Cons.IH[OF r])
  also have "\<dots> = st\<lparr>results := (results st)(m \<mapsto> r\<lparr>code := code r @ concat (c # chunks)\<rparr>)\<rparr>"
    by simp
  finally show ?case .
qed

text \<open>
  Claim C6. When model \<open>m\<close> has an entry with code \<open>c\<close>, a \<^verbatim>\<open>code_chunk\<close> event for
  \<open>m\<close> with chunk \<open>s\<close> changes only that entry, whose code becomes \<open>c @ s\<close>; the entry
  of every other model is as before. Hence handling a sequence of chunks for \<open>m\<close> leaves
  \<open>c\<close> followed by the chunks in their order of arrival, which is their concatenation
  when \<open>c\<close> is empty.
\<close>

theorem code_chunk_appends:
  assumes "results st m = Some r"
  shows "handleStreamEvent nts now (Code_chunk m s) st =
           st\<lparr>results := (results st)(m \<mapsto> r\<lparr>code := code r @ s\<rparr>)\<rparr> \<and>
         map_option code (results (handleStreamEvent nts now (Code_chunk m s) st) m) = Some (code r @ s) \<and>
         (\<forall>m'. m' \<noteq> m \<longrightarrow>
            results (handleStreamEvent nts now (Code_chunk m s) st) m' = results st m') \<and>
         map_option code
           (results (fold (\<lambda>c. handleStreamEvent nts now (Code_chunk m c)) chunks st) m)
           = Some (code r @ concat chunks) \<and>
         (code r = [] \<longrightarrow>
            map_option code
              (results (fold (\<lambda>c. handleStreamEvent nts now (Code_chunk m c)) chunks st) m)
              = Some (concat chunks))"
  using assms by (simp add: updateResult_Some code_chunks_fold)

theorem code_chunk_appends_witness:
  "map_option code
     (results (fold (\<lambda>c. handleStreamEvent (\<lambda>x. ''n'') 0 (Code_chunk Gemini_2_5_pro c))
                 [''def f'', ''():'', '' pass''] (initialState [Gemini_2_5_pro, Gemini_2_5_flash]))
        Gemini_2_5_pro)
   = Some ''def f(): pass'' \<and>
   results (handleStreamEvent (\<lambda>x. ''n'') 0 (Code_chunk Gemini_2_5_pro ''def f'')
              (initialState [Gemini_2_5_pro, Gemini_2_5_flash])) Gemini_2_5_flash
   = results (initialState [Gemini_2_5_pro, Gemini_2_5_flash]) Gemini_2_5_flash"
proof -
  note t = code_chunk_appends[OF initialState_entry, of "\<lambda>x. ''n''" 0 "''def f''"
      "[''def f'', ''():'', '' pass'']"]
  have c: "code \<lparr>model = Gemini_2_5_pro, status = Status_pending, code = [], executionTime = None,
           overallScore = None, metrics = None, pros = None, cons = None,
           ModelResult.error = None\<rparr> @ concat [''def f'', ''():'', '' pass''] = ''def f(): pass''"
    by simp
  have a: "map_option code
     (results (fold (\<lambda>c. handleStreamEvent (\<lambda>x. ''n'') 0 (Code_chunk Gemini_2_5_pro c))
                 [''def f'', ''():'', '' pass''] (initialState [Gemini_2_5_pro, Gemini_2_5_flash]))
        Gemini_2_5_pro) = Some ''def f(): pass''"
    using t[THEN conjunct2, THEN conjunct2, THEN conjunct2, THEN conjunct1] unfolding c .
  have b: "results (handleStreamEvent (\<lambda>x. ''n'') 0 (Code_chunk Gemini_2_5_pro ''def f'')
              (initialState [Gemini_2_5_pro, Gemini_2_5_flash])) Gemini_2_5_flash
   = results (initialState [Gemini_2_5_pro, Gemini_2_5_flash]) Gemini_2_5_flash"
    by (rule t[THEN conjunct2, THEN conjunct2, THEN conjunct1, rule_format]) simp
  from a b show ?thesis by (rule conjI)
qed

text \<open>
  Claim C7. When model \<open>m\<close> has an entry, a \<^verbatim>\<open>generation_complete\<close> event for \<open>m\<close>
  records the event's time as the execution time, sets the status to \<^verbatim>\<open>complete\<close>
  when the success flag is true and to \<^verbatim>\<open>error\<close> when it is false, and leaves the
  accumulated code as it was.
\<close>

theorem generation_complete_records:
  assumes "results st m = Some r"
  shows "handleStreamEvent nts now (Generation_complete m b t) st =
           st\<lparr>results := (results st)(m \<mapsto>
              r\<lparr>status := (if b then Status_complete else Status_error),
                executionTime := Some t,
                ModelResult.error := (if b then None else Some ''Generation failed'')\<rparr>)\<rparr> \<and>
         map_option executionTime (results (handleStreamEvent nts now (Generation_complete m b t) st) m)
           = Some (Some t) \<and>
         map_option status (results (handleStreamEvent nts now (Generation_complete m b t) st) m)
           = Some (if b then Status_complete else Status_error) \<and>
         map_option code (results (handleStreamEvent nts now (Generation_complete m b t) st) m)
           = Some (code r)"
  using assms by (simp add: updateResult_Some)

theorem generation_complete_records_witness:
  "map_option status
     (results (handleStreamEvent (\<lambda>x. ''n'') 0 (Generation_complete Gemini_2_5_pro True 1200)
                 (initialState [Gemini_2_5_pro, Gemini_2_5_flash])) Gemini_2_5_pro)
   = Some Status_complete \<and>
   map_option status
     (results (handleStreamEvent (\<lambda>x. ''n'') 0 (Generation_complete Gemini_2_5_pro False 1200)
                 (initialState [Gemini_2_5_pro, Gemini_2_5_flash])) Gemini_2_5_pro)
   = Some Status_error \<and>
   map_option executionTime
     (results (handleStreamEvent (\<lambda>x. ''n'') 0 (Generation_complete Gemini_2_5_pro False 1200)
                 (initialState [Gemini_2_5_pro, Gemini_2_5_flash])) Gemini_2_5_pro)
   = Some (Some 1200)"
  using generation_complete_records[OF initialState_entry, of "\<lambda>x. ''n''" 0 True 1200]
    generation_complete_records[OF initialState_entry, of "\<lambda>x. ''n''" 0 False 1200]
  by simp

text \<open>
  Claim C8. An \<^verbatim>\<open>error\<close> event that names a model \<open>m\<close> with an entry sets the status of
  that entry to \<^verbatim>\<open>error\<close> with the event's message and appends one warning tagged with
  \<open>m\<close>; the entries of the other models and the page's own error are as before. An
  \<^verbatim>\<open>error\<close> event that names no model sets the page's error to the message and changes
  neither the results nor the warnings.
\<close>

theorem error_event_scope:
  "(results st m = Some r \<longrightarrow>
      handleStreamEvent nts now (Error msg (Some m)) st =
        st\<lparr>results := (results st)(m \<mapsto> r\<lparr>status := Status_error, ModelResult.error := Some msg\<rparr>),
           warnings := warnings st @
             [\<lparr>warning_id = ''error-'' @ model_value m @ ''-'' @ nts now,
               warning_type = Warning_model, warning_message = msg,
               warning_model = Some m\<rparr>]\<rparr> \<and>
      (\<forall>m'. m' \<noteq> m \<longrightarrow>
         results (handleStreamEvent nts now (Error msg (Some m)) st) m' = results st m') \<and>
      PageState.error (handleStreamEvent nts now (Error msg (Some m)) st) = PageState.error st) \<and>
   handleStreamEvent nts now (Error msg None) st = st\<lparr>error := Some msg\<rparr> \<and>
   results (handleStreamEvent nts now (Error msg None) st) = results st \<and>
   warnings (handleStreamEvent nts now (Error msg None) st) = warnings st"
  by (simp add: updateResult_Some model_value_not_empty)

theorem error_event_scope_witness:
  "map_option status
     (results (handleStreamEvent (\<lambda>x. ''n'') 0 (Error ''quota'' (Some Gemini_2_5_pro))
                 (initialState [Gemini_2_5_pro, Gemini_2_5_flash])) Gemini_2_5_pro)
   = Some Status_error \<and>
   results (handleStreamEvent (\<lambda>x. ''n'') 0 (Error ''quota'' (Some Gemini_2_5_pro))
                 (initialState [Gemini_2_5_pro, Gemini_2_5_flash])) Gemini_2_5_flash
   = results (initialState [Gemini_2_5_pro, Gemini_2_5_flash]) Gemini_2_5_flash \<and>
   warnings (handleStreamEvent (\<lambda>x. ''n'') 0 (Error ''quota'' (Some Gemini_2_5_pro))
                 (initialState [Gemini_2_5_pro, Gemini_2_5_flash]))
   = [\<lparr>warning_id = ''error-gemini-2.5-pro-n'', warning_type = Warning_model,
        warning_message = ''quota'', warning_model = Some Gemini_2_5_pro\<rparr>] \<and>
   PageState.error (handleStreamEvent (\<lambda>x. ''n'') 0 (Error ''quota'' (Some Gemini_2_5_pro))
                 (initialState [Gemini_2_5_pro, Gemini_2_5_flash])) = None \<and>
   handleStreamEvent (\<lambda>x. ''n'') 0 (Error ''quota'' None)
                 (initialState [Gemini_2_5_pro, Gemini_2_5_flash])
     = (initialState [Gemini_2_5_pro, Gemini_2_5_flash])\<lparr>error := Some ''quota''\<rparr>"
proof -
  let ?st = "initialState [Gemini_2_5_pro, Gemini_2_5_flash]"
  let ?r = "\<lparr>model = Gemini_2_5_pro, status = Status_pending, code = [], executionTime = None,
           overallScore = None, metrics = None, pros = None, cons = None,
           ModelResult.error = None\<rparr>"
  note t = error_event_scope[of ?st Gemini_2_5_pro ?r "\<lambda>x. ''n''" 0 "''quota''"]
  note m = t[THEN conjunct1, rule_format, OF initialState_entry]
  have 1: "map_option status (results (handleStreamEvent (\<lambda>x. ''n'') 0
              (Error ''quota'' (Some Gemini_2_5_pro)) ?st) Gemini_2_5_pro) = Some Status_error"
    unfolding m[THEN conjunct1] by simp
  have 2: "results (handleStreamEvent (\<lambda>x. ''n'') 0 (Error ''quota'' (Some Gemini_2_5_pro)) ?st)
              Gemini_2_5_flash = results ?st Gemini_2_5_flash"
    by (rule m[THEN conjunct2, THEN conjunct1, rule_format]) simp
  have 3: "warnings (handleStreamEvent (\<lambda>x. ''n'') 0 (Error ''quota'' (Some Gemini_2_5_pro)) ?st)
     = [\<lparr>warning_id = ''error-gemini-2.5-pro-n'', warning_type = Warning_model,
        warning_message = ''quota'', warning_model = Some Gemini_2_5_pro\<rparr>]"
    by (simp add: m[THEN conjunct1]) (simp add: initialState_def)
  have 4: "PageState.error (handleStreamEvent (\<lambda>x. ''n'') 0 (Error ''quota'' (Some Gemini_2_5_pro)) ?st)
     = None"
    by (simp add: m[THEN conjunct2, THEN conjunct2]) (simp add: initialState_def)
  note 5 = t[THEN conjunct2, THEN conjunct1]
  from 1 2 3 4 5 show ?thesis by (intro conjI)
qed

section \<open>Properties of the results page on unvalidated events\<close>

lemma model_value_not_inherited: "model_value m \<notin> set objectPrototypeKeys"
  by (cases m) (simp_all add: objectPrototypeKeys_def)

lemma modelOf_model_value: "modelOf (model_value m) = Some m"
  by (cases m) (simp_all add: modelOf_def allModels_def)

lemma modelOf_Some: "modelOf k = Some m \<Longrightarrow> model_value m = k"
  by (auto simp: modelOf_def find_Some_iff)

lemma rawResults_model_value: "rawResults rs (model_value m) = map_option rawResult (rs m)"
  by (simp add: rawResults_def modelOf_model_value)

lemma rawResults_upd:
  "(rawResults rs)(model_value m \<mapsto> rawResult r) = rawResults (rs(m \<mapsto> r))"
proof
  fix k
  show "((rawResults rs)(model_value m \<mapsto> rawResult r)) k = rawResults (rs(m \<mapsto> r)) k"
  proof (cases "k = model_value m")
    case True
    then show ?thesis by (simp add: rawResults_model_value)
  next
    case False
    then show ?thesis
      by (auto simp: rawResults_def dest: modelOf_Some split: option.splits)
  qed
qed

lemma updateResult_raw_typed:
  assumes "\<And>r. change_raw (rawResult r) = rawResult (change r)"
  shows "updateResult_raw (model_value m) change_raw (rawResults rs) = rawResults (updateResult m change rs)"
proof (cases "rs m")
  case None
  then show ?thesis
    by (simp add: updateResult_raw_def updateResult_def lookupResult_def rawResults_model_value
          model_value_not_inherited)
next
  case (Some r)
  then show ?thesis
    by (simp add: updateResult_raw_def updateResult_def lookupResult_def rawResults_model_value
          assms rawResults_upd)
qed

text \<open>
  On an event whose model is of the type \<^verbatim>\<open>Model\<close> the two handlers do the same: the
  typed handler is the run-time handler seen through the types.
\<close>

lemma handleStreamEvent_raw_typed:
  "handleStreamEvent_raw nts now (rawEvent ev) (rawState st) = rawState (handleStreamEvent nts now ev st)"
proof (cases ev)
  case (Generation_start m)
  have "updateResult_raw (model_value m) (\<lambda>cur. cur\<lparr>raw_status := Some Status_processing\<rparr>)
          (rawResults (results st))
        = rawResults (updateResult m (\<lambda>cur. cur\<lparr>status := Status_processing\<rparr>) (results st))"
    by (rule updateResult_raw_typed) (simp add: rawResult_def)
  with Generation_start show ?thesis by (simp add: rawState_def)
next
  case (Code_chunk m chunk)
  have "updateResult_raw (model_value m) (\<lambda>cur. cur\<lparr>raw_code := Some (codeOf cur @ chunk)\<rparr>)
          (rawResults (results st))
        = rawResults (updateResult m (\<lambda>cur. cur\<lparr>code := code cur @ chunk\<rparr>) (results st))"
    by (rule updateResult_raw_typed) (simp add: rawResult_def codeOf_def)
  with Code_chunk show ?thesis by (simp add: rawState_def)
next
  case (Generation_complete m ok t)
  have "updateResult_raw (model_value m)
          (\<lambda>cur. cur\<lparr>raw_status := Some (if ok then Status_complete else Status_error),
                   raw_executionTime := Some t,
                   raw_error := (if ok then None else Some ''Generation failed'')\<rparr>)
          (rawResults (results st))
        = rawResults (updateResult m
          (\<lambda>cur. cur\<lparr>status := (if ok then Status_complete else Status_error),
                   executionTime := Some t,
                   ModelResult.error := (if ok then None else Some ''Generation failed'')\<rparr>)
          (results st))"
    by (rule updateResult_raw_typed) (simp add: rawResult_def)
  with Generation_complete show ?thesis by (simp add: rawState_def)
next
  case (Evaluation_result m overall ms ps cs)
  have "updateResult_raw (model_value m)
          (\<lambda>cur. cur\<lparr>raw_overallScore := Some overall,
                   raw_metrics := Some ms,
                   raw_pros := Some (fst (generateProsAndCons nts ms)),
                   raw_cons := Some (snd (generateProsAndCons nts ms))\<rparr>)
          (rawResults (results st))
        = rawResults (updateResult m
          (\<lambda>cur. cur\<lparr>overallScore := Some overall,
                   metrics := Some ms,
                   pros := Some (fst (generateProsAndCons nts ms)),
                   cons := Some (snd (generateProsAndCons nts ms))\<rparr>)
          (results st))"
    by (rule updateResult_raw_typed) (simp add: rawResult_def)
  with Evaluation_result show ?thesis by (simp add: rawState_def)
next
  case (Summary d ranking)
  then show ?thesis by (simp add: rawState_def)
next
  case Complete
  then show ?thesis by (simp add: rawState_def)
next
  case (Error msg mo)
  show ?thesis
  proof (cases mo)
    case None
    with Error show ?thesis by (simp add: rawState_def)
  next
    case (Some m)
    have "updateResult_raw (model_value m)
            (\<lambda>cur. cur\<lparr>raw_status := Some Status_error, raw_error := Some msg\<rparr>)
            (rawResults (results st))
          = rawResults (updateResult m
            (\<lambda>cur. cur\<lparr>status := Status_error, ModelResult.error := Some msg\<rparr>) (results st))"
      by (rule updateResult_raw_typed) (simp add: rawResult_def)
    with Error Some show ?thesis
      by (simp add: rawState_def model_value_not_empty rawWarning_def)
  qed
qed







text \<open>The same for the typed handler, where every model is a known identifier.\<close>

lemma unknown_model_dropped_typed:
  assumes "results st m = None"
  shows "handleStreamEvent nts now (Generation_start m) st = st \<and>
         handleStreamEvent nts now (Code_chunk m s) st = st \<and>
         handleStreamEvent nts now (Generation_complete m b t) st = st \<and>
         handleStreamEvent nts now (Evaluation_result m overall ms ps cs) st = st \<and>
         handleStreamEvent nts now (Error msg (Some m)) st =
           st\<lparr>warnings := warnings st @
             [\<lparr>warning_id = ''error-'' @ model_value m @ ''-'' @ nts now,
               warning_type = Warning_model, warning_message = msg,
               warning_model = Some m\<rparr>]\<rparr>"
  using assms by (simp add: updateResult_None model_value_not_empty)

section \<open>Properties of the priority picker\<close>

text \<open>
  Claim C10. On a selection without duplicates, \<^verbatim>\<open>handleToggle\<close> of a value that is not
  selected appends it at the end; of a value that is selected it removes it, keeping the
  other values in their order; the new list has no duplicates either; and toggling a
  value that was not selected a second time, on the list the first toggle produced, gives
  the original list back. The component's own list follows the new one exactly when the
  component is not controlled.
\<close>

theorem handleToggle_set_semantics:
  assumes "distinct (selectedValues cv iv)"
  shows "(v \<notin> set (selectedValues cv iv) \<longrightarrow>
            snd (handleToggle cv iv v) = selectedValues cv iv @ [v]) \<and>
         (v \<in> set (selectedValues cv iv) \<longrightarrow>
            snd (handleToggle cv iv v) = filter (\<lambda>x. x \<noteq> v) (selectedValues cv iv) \<and>
            subseq (snd (handleToggle cv iv v)) (selectedValues cv iv) \<and>
            set (snd (handleToggle cv iv v)) = set (selectedValues cv iv) - {v}) \<and>
         distinct (snd (handleToggle cv iv v)) \<and>
         fst (handleToggle cv iv v) = (if cv = None then snd (handleToggle cv iv v) else iv) \<and>
         (v \<notin> set (selectedValues cv iv) \<longrightarrow>
            handleToggle None (snd (handleToggle cv iv v)) v
              = (selectedValues cv iv, selectedValues cv iv) \<and>
            snd (handleToggle (Some (snd (handleToggle cv iv v))) iv v) = selectedValues cv iv)"
  using assms
  by (auto simp: handleToggle_def Let_def selectedValues_def filter_id_conv split: option.splits)

theorem handleToggle_set_semantics_witness:
  "snd (handleToggle (Some [''readability'', ''consistency'']) [] ''time_complexity'')
     = [''readability'', ''consistency'', ''time_complexity''] \<and>
   snd (handleToggle (Some [''readability'', ''consistency'']) [] ''readability'')
     = [''consistency''] \<and>
   handleToggle None (snd (handleToggle None [''readability'', ''consistency''] ''time_complexity''))
      ''time_complexity''
     = ([''readability'', ''consistency''], [''readability'', ''consistency''])"
proof -
  have d1: "distinct (selectedValues (Some [''readability'', ''consistency'']) [])"
    and d2: "distinct (selectedValues None [''readability'', ''consistency''])"
    by (simp_all add: selectedValues_def)
  note t1 = handleToggle_set_semantics[OF d1, of "''time_complexity''"]
  note t2 = handleToggle_set_semantics[OF d1, of "''readability''"]
  note t3 = handleToggle_set_semantics[OF d2, of "''time_complexity''"]
  have a: "snd (handleToggle (Some [''readability'', ''consistency'']) [] ''time_complexity'')
     = [''readability'', ''consistency'', ''time_complexity'']"
    using t1[THEN conjunct1] by (simp add: selectedValues_def)
  have b: "snd (handleToggle (Some [''readability'', ''consistency'']) [] ''readability'')
     = [''consistency'']"
    using t2[THEN conjunct2, THEN conjunct1] by (simp add: selectedValues_def)
  have "''time_complexity'' \<notin> set (selectedValues None [''readability'', ''consistency''])"
    by (simp add: selectedValues_def)
  from t3[THEN conjunct2, THEN conjunct2, THEN conjunct2, THEN conjunct2, rule_format, OF this]
  have c: "handleToggle None (snd (handleToggle None [''readability'', ''consistency''] ''time_complexity''))
      ''time_complexity''
     = ([''readability'', ''consistency''], [''readability'', ''consistency''])"
    by (simp add: selectedValues_def)
  from a b c show ?thesis by (intro conjI)
qed

section \<open>Properties of the Weight Calculator\<close>

lemma offending_None:
  "distinct (seen @ ks) \<Longrightarrow> set (seen @ ks) = set universe \<Longrightarrow> offending universe seen ks = None"
proof (induction ks arbitrary: seen)
  case Nil
  then show ?case by (auto simp: find_None_iff)
next
  case (Cons k ks)
  from Cons.prems have "k \<in> set universe" "k \<notin> set seen" by auto
  moreover have "offending universe (seen @ [k]) ks = None"
    using Cons.prems by (intro Cons.IH) auto
  ultimately show ?case by simp
qed

lemma sum_list_rawWeights: "sum_list (rawWeights r n) = (\<Sum>i<n. r ^ i)"
  by (simp add: rawWeights_def interv_sum_list_conv_sum_set_nat atLeast0LessThan)

lemma sum_list_divide: "sum_list (map (\<lambda>w. w / c) ws) = sum_list ws / (c::real)"
  by (induction ws) (simp_all add: add_divide_distrib)

lemma rawWeights_total_pos: "0 < r \<Longrightarrow> 0 < n \<Longrightarrow> 0 < sum_list (rawWeights r n)"
  unfolding sum_list_rawWeights
  by (rule sum_pos) auto

text \<open>
  Claim C1. For a non-empty priority ordering and a decay rate \<open>r\<close> with \<open>0 < r < 1\<close>,
  the Weight Calculator gives the metric at position \<open>i\<close> the weight \<open>r ^ i\<close> divided
  by the sum of \<open>r ^ j\<close> over all positions; the weights are strictly decreasing in
  priority order and their sum is 1, hence within one millionth of 1. These weights are
  the calculator's result whenever the priority passes its validation (distinct
  identifiers, the same as those of the default weights).
\<close>

theorem priority_weights_decay:
  assumes "priority \<noteq> []" and "0 < r" and "r < 1"
  shows "map fst (priorityWeights priority r) = priority \<and>
         (\<forall>i<length priority.
            snd (priorityWeights priority r ! i) = r ^ i / (\<Sum>j<length priority. r ^ j)) \<and>
         (\<forall>i j. i < j \<and> j < length priority \<longrightarrow>
            snd (priorityWeights priority r ! j) < snd (priorityWeights priority r ! i)) \<and>
         sum_list (map snd (priorityWeights priority r)) = 1 \<and>
         \<bar>sum_list (map snd (priorityWeights priority r)) - 1\<bar> \<le> 1 / 10 ^ 6 \<and>
         (distinct priority \<and> set priority = set (map fst defaultWeights) \<longrightarrow>
            computeWeights priority r defaultWeights = Inr (priorityWeights priority r))"
proof -
  let ?n = "length priority"
  let ?total = "sum_list (rawWeights r ?n)"
  let ?norm = "map (\<lambda>w. w / ?total) (rawWeights r ?n)"
  have ws: "priorityWeights priority r = zip priority ?norm"
    by (simp add: priorityWeights_def Let_def)
  have n: "0 < ?n" using assms(1) by simp
  have total: "0 < ?total" using rawWeights_total_pos[OF assms(2) n] .
  have len: "length ?norm = ?n" by (simp add: rawWeights_def)
  have cw: "computeWeights priority r defaultWeights = Inr (priorityWeights priority r)"
    if "distinct priority" "set priority = set (map fst defaultWeights)"
  proof -
    have "offending (map fst defaultWeights) [] priority = None"
      using that by (intro offending_None) auto
    then show ?thesis using assms(1) by (simp add: computeWeights_def)
  qed
  have keys: "map fst (zip priority ?norm) = priority" using len by simp
  have vals: "map snd (zip priority ?norm) = ?norm" using len by simp
  have nth: "snd (zip priority ?norm ! i) = r ^ i / (\<Sum>j<?n. r ^ j)" if "i < ?n" for i
    using that by (simp add: rawWeights_def sum_list_rawWeights[symmetric])
  have dec: "snd (zip priority ?norm ! j) < snd (zip priority ?norm ! i)" if "i < j" "j < ?n" for i j
  proof -
    have "r ^ j < r ^ i" using that(1) assms(2,3) by (simp add: power_strict_decreasing)
    moreover have "0 < (\<Sum>j<?n. r ^ j)" using total by (simp add: sum_list_rawWeights)
    ultimately have "r ^ j / (\<Sum>j<?n. r ^ j) < r ^ i / (\<Sum>j<?n. r ^ j)"
      by (simp add: divide_strict_right_mono)
    then show ?thesis using that nth by simp
  qed
  have one: "sum_list (map snd (zip priority ?norm)) = 1"
    using total by (simp only: vals sum_list_divide) simp
  show ?thesis
    unfolding ws using cw[unfolded ws] keys nth dec one by simp
qed

theorem priority_weights_decay_witness:
  "computeWeights
     [''time_complexity'', ''readability'', ''consistency'', ''code_documentation'',
      ''external_dependencies''] 0.7
     [(''readability'', 0.25), (''consistency'', 0.20), (''time_complexity'', 0.25),
      (''code_documentation'', 0.15), (''external_dependencies'', 0.15)]
    = Inr (priorityWeights
       [''time_complexity'', ''readability'', ''consistency'', ''code_documentation'',
        ''external_dependencies''] 0.7) \<and>
   map fst (priorityWeights
       [''time_complexity'', ''readability'', ''consistency'', ''code_documentation'',
        ''external_dependencies''] 0.7)
    = [''time_complexity'', ''readability'', ''consistency'', ''code_documentation'',
        ''external_dependencies''] \<and>
   snd (priorityWeights
       [''time_complexity'', ''readability'', ''consistency'', ''code_documentation'',
        ''external_dependencies''] 0.7 ! 1)
    < snd (priorityWeights
       [''time_complexity'', ''readability'', ''consistency'', ''code_documentation'',
        ''external_dependencies''] 0.7 ! 0) \<and>
   sum_list (map snd (priorityWeights
       [''time_complexity'', ''readability'', ''consistency'', ''code_documentation'',
        ''external_dependencies''] 0.7)) = 1"
proof -
  let ?p = "[''time_complexity'', ''readability'', ''consistency'', ''code_documentation'',
      ''external_dependencies'']"
  let ?d = "[(''readability'', 0.25::real), (''consistency'', 0.20), (''time_complexity'', 0.25),
      (''code_documentation'', 0.15), (''external_dependencies'', 0.15)]"
  have 1: "?p \<noteq> []" by simp
  have 2: "distinct ?p \<and> set ?p = set (map fst ?d)" by (simp add: insert_commute)
  have 3: "(0::real) < 0.7" by simp
  have 4: "(0.7::real) < 1" by simp
  note t = priority_weights_decay[OF 1 3 4, of ?d]
  note dec = t[THEN conjunct2, THEN conjunct2, THEN conjunct1, rule_format]
  have a: "snd (priorityWeights ?p 0.7 ! 1) < snd (priorityWeights ?p 0.7 ! 0)"
    by (rule dec) simp
  note cw = t[THEN conjunct2, THEN conjunct2, THEN conjunct2, THEN conjunct2, THEN conjunct2,
      rule_format, OF 2]
  from cw t[THEN conjunct1] a
    t[THEN conjunct2, THEN conjunct2, THEN conjunct2, THEN conjunct1]
  show ?thesis by (intro conjI)
qed

text \<open>
  The priority of the backend's documents at the decay rate 0.7: the exact weights, which
  are about 0.361, 0.252, 0.177, 0.124 and 0.087 (the documents quote about 0.337, 0.236,
  0.165, 0.116 and 0.081 for them).
\<close>

lemma computeWeights_example:
  "computeWeights
     [''time_complexity'', ''readability'', ''consistency'', ''code_documentation'',
      ''external_dependencies''] 0.7
     [(''readability'', 0.25), (''consistency'', 0.20), (''time_complexity'', 0.25),
      (''code_documentation'', 0.15), (''external_dependencies'', 0.15)]
   = Inr [(''time_complexity'', 10000 / 27731), (''readability'', 7000 / 27731),
          (''consistency'', 4900 / 27731), (''code_documentation'', 3430 / 27731),
          (''external_dependencies'', 2401 / 27731)]"
  by (simp add: computeWeights_def priorityWeights_def rawWeights_def Let_def upt_rec[of 0]
        upt_rec[of 1] upt_rec[of 2] upt_rec[of 3] upt_rec[of 4]
        power2_eq_square power3_eq_cube power4_eq_xxxx)

end
